theory Spec2Isabelle
  imports Main "HOL-Library.Sublist" "HOL-Library.AList"
begin

section \<open>Python values used by the book assistant\<close>

text \<open>
  A Python \<open>str\<close> is modelled as a \<open>string\<close>: a list of characters, one \<open>char\<close> for
  each position that \<open>len\<close>, slicing and \<open>in\<close> count. A \<open>dict\<close> with string keys and
  string values is an association list with one entry for each key; \<open>None\<close> is the
  \<open>None\<close> of \<open>option\<close>. An exception is a value carrying the text that \<open>str(e)\<close>
  gives; only instances of \<open>Exception\<close> are modelled, the ones that
  \<open>except Exception\<close> catches.
\<close>

type_synonym dict = "(string \<times> string) list"

datatype exn = PyException (message: string)

definition nl :: char where
  "nl = CHR 0x0A"

definition dq :: char where
  "dq = CHR 0x22"

definition sq :: char where
  "sq = CHR 0x27"

text \<open>\<open>sub in s\<close> on strings: \<open>sub\<close> occurs in \<open>s\<close> as a contiguous block.\<close>

definition str_in :: "string \<Rightarrow> string \<Rightarrow> bool" where
  "str_in sub s = sublist sub s"

text \<open>
  \<open>str.lower()\<close>: the letters \<open>A\<close> to \<open>Z\<close> are mapped to \<open>a\<close> to \<open>z\<close>. Python also
  lowers the cased letters beyond ASCII; every theorem below is stated through
  \<open>lower\<close> and uses none of its equations except where a concrete query is evaluated.
\<close>

definition lower_char :: "char \<Rightarrow> char" where
  "lower_char c =
     (case map_of (zip ''ABCDEFGHIJKLMNOPQRSTUVWXYZ'' ''abcdefghijklmnopqrstuvwxyz'') c of
        None \<Rightarrow> c
      | Some l \<Rightarrow> l)"

definition lower :: "string \<Rightarrow> string" where
  "lower s = map lower_char s"

text \<open>Truth value of an optional string and of an optional dict (\<open>if x:\<close>).\<close>

definition truthy :: "'a list option \<Rightarrow> bool" where
  "truthy x = (case x of None \<Rightarrow> False | Some v \<Rightarrow> v \<noteq> [])"

text \<open>\<open>d.get(k, default)\<close> and \<open>k in d\<close>.\<close>

definition dict_get :: "dict \<Rightarrow> string \<Rightarrow> string \<Rightarrow> string" where
  "dict_get d k dflt = (case map_of d k of None \<Rightarrow> dflt | Some v \<Rightarrow> v)"

definition dict_has :: "string \<Rightarrow> dict \<Rightarrow> bool" where
  "dict_has k d = (map_of d k \<noteq> None)"

text \<open>
  Slicing \<open>s[lo:hi]\<close> with Python's rules: an absent bound is the end of the string, a
  negative bound counts from the end, and every bound is clamped to the string.
\<close>

definition slice_bound :: "nat \<Rightarrow> int \<Rightarrow> nat" where
  "slice_bound n i = (if i < 0 then nat (max 0 (int n + i)) else min n (nat i))"

definition py_slice :: "int option \<Rightarrow> int option \<Rightarrow> 'a list \<Rightarrow> 'a list" where
  "py_slice lo hi s =
     (let n = length s;
          a = (case lo of None \<Rightarrow> 0 | Some i \<Rightarrow> slice_bound n i);
          b = (case hi of None \<Rightarrow> n | Some j \<Rightarrow> slice_bound n j)
      in take (b - a) (drop a s))"

section \<open>The outside world\<close>

text \<open>
  The program talks to two collaborators: the web (\<open>requests\<close> and the
  \<open>BeautifulSoup\<close> parser applied to the response) and the Gemini SDK. Every call
  to one of them is recorded in a trace, and what a collaborator answers may depend on
  the calls made so far, so that two calls with the same argument need not agree.
\<close>

datatype event = HttpGet string | LlmInvoke string

text \<open>
  What the program reads from a parsed page: the stripped text of the \<open>h1\<close> tagged
  \<open>itemprop="name"\<close> and of the \<open>a\<close> tagged \<open>itemprop="creator"\<close> when found, the
  stripped text of the cell after the "Language" row and after the "Release Date" header
  when both are found, the text and the \<open>href\<close> of every \<open>a\<close> tag in document order,
  and the page text after the whitespace clean-up of \<open>extract_text_from_url\<close>.
\<close>

record page =
  h1_name :: "string option"
  a_creator :: "string option"
  language_td :: "string option"
  release_date_td :: "string option"
  a_tags :: "(string \<times> string option) list"
  clean_text :: string

text \<open>
  Reading an attribute of an object of the Gemini SDK: the attribute is missing
  (\<open>hasattr\<close> is false), reading it raises another exception (which \<open>hasattr\<close> lets
  through), or it has a value.
\<close>

datatype 'a attr = NoAttr | Raises exn | Val 'a

record response =
  text_attr :: "string attr"
  parts_attr :: "string attr list attr"
  str_of :: string

text \<open>
  \<open>http_get\<close> is \<open>self.session.get(url)\<close> followed by the parse; \<open>gemini_sdk\<close> is the
  SDK, that is \<open>genai.GenerativeModel(...)\<close> followed by \<open>generate_content(prompt)\<close>,
  which returns a response or raises; \<open>gemini_api_key\<close> is the environment variable read
  when a model object is constructed.
\<close>

record world =
  http_get :: "event list \<Rightarrow> string \<Rightarrow> exn + page"
  gemini_sdk :: "event list \<Rightarrow> string \<Rightarrow> exn + response"
  gemini_api_key :: string

section \<open>The model wrapper (\<open>src/config/llm_wrapper.py\<close>)\<close>

text \<open>\<open>''.join(part.text for part in response.parts if hasattr(part, 'text'))\<close>\<close>

fun join_parts :: "string attr list \<Rightarrow> exn + string" where
  "join_parts [] = Inr []"
| "join_parts (NoAttr # ps) = join_parts ps"
| "join_parts (Raises e # ps) = Inl e"
| "join_parts (Val t # ps) =
     (case join_parts ps of Inl e \<Rightarrow> Inl e | Inr s \<Rightarrow> Inr (t @ s))"

text \<open>The body of the \<open>try\<close> block of \<open>_call\<close>, lines 64 to 77.\<close>

definition call_try :: "(string \<Rightarrow> exn + response) \<Rightarrow> string \<Rightarrow> exn + string" where
  "call_try generate_content prompt =
     (case generate_content prompt of
        Inl e \<Rightarrow> Inl e
      | Inr r \<Rightarrow>
          (case text_attr r of
             Val t \<Rightarrow> Inr t
           | Raises e \<Rightarrow> Inl e
           | NoAttr \<Rightarrow>
               (case parts_attr r of
                  Val ps \<Rightarrow> join_parts ps
                | Raises e \<Rightarrow> Inl e
                | NoAttr \<Rightarrow> Inr (str_of r))))"

text \<open>
  \<open>GeminiLLM._call\<close>: the \<open>except Exception\<close> handler turns every exception of the
  body into the error message, which is returned as the generated text.
\<close>

definition GeminiLLM_call :: "(string \<Rightarrow> exn + response) \<Rightarrow> string \<Rightarrow> exn + string" where
  "GeminiLLM_call generate_content prompt =
     (case call_try generate_content prompt of
        Inl e \<Rightarrow> Inr (''Error calling Gemini API: '' @ message e)
      | Inr s \<Rightarrow> Inr s)"

text \<open>
  \<open>invoke\<close> on a \<open>GeminiLLM\<close> hands the prompt to \<open>_call\<close> and returns what it returns;
  \<open>generate_content\<close> is the SDK call, whose answer may depend on the trace.
\<close>

definition GeminiLLM_invoke ::
  "(event list \<Rightarrow> string \<Rightarrow> exn + response) \<Rightarrow> event list \<Rightarrow> string \<Rightarrow> exn + string" where
  "GeminiLLM_invoke generate_content tr prompt = GeminiLLM_call (generate_content tr) prompt"

text \<open>
  \<open>invoke\<close> on the model objects of the program. Both \<open>self.llm\<close> of the analyzer and
  \<open>llm\<close> of the chat path are built by \<open>get_gemini_llm\<close>, so both are a \<open>GeminiLLM\<close>
  over the SDK of the world.
\<close>

definition llm_invoke :: "world \<Rightarrow> event list \<Rightarrow> string \<Rightarrow> exn + string" where
  "llm_invoke w = GeminiLLM_invoke (gemini_sdk w)"

text \<open>
  \<open>get_gemini_llm\<close>, that is \<open>GeminiLLM.__init__\<close>: it raises when the key is missing,
  and otherwise gives the model object, which is identified with its \<open>invoke\<close>.
\<close>

definition get_gemini_llm :: "world \<Rightarrow> exn + (event list \<Rightarrow> string \<Rightarrow> exn + string)" where
  "get_gemini_llm w =
     (if gemini_api_key w = [] then Inl (PyException ''GEMINI_API_KEY environment variable not set'')
      else Inr (llm_invoke w))"

section \<open>The analyzer (\<open>src/analyzer/url_analyzer.py\<close>)\<close>

text \<open>\<open>extract_text_from_url\<close>: the cleaned text, or the error text in its place.\<close>

definition extract_text_from_url :: "world \<Rightarrow> string \<Rightarrow> event list \<Rightarrow> string \<times> event list" where
  "extract_text_from_url w url tr =
     (case http_get w tr url of
        Inl e \<Rightarrow> (''Error extracting content from URL: '' @ message e, tr @ [HttpGet url])
      | Inr p \<Rightarrow> (clean_text p, tr @ [HttpGet url]))"

text \<open>\<open>re.search(r"\d{4}", year_text)\<close>: the first four digits in a row.\<close>

definition is_digit :: "char \<Rightarrow> bool" where
  "is_digit c = (let n = (of_char c :: nat) in 48 \<le> n \<and> n \<le> 57)"

fun search_4digits :: "string \<Rightarrow> string option" where
  "search_4digits [] = None"
| "search_4digits (c # cs) =
     (if 3 \<le> length cs \<and> list_all is_digit (take 4 (c # cs)) then Some (take 4 (c # cs))
      else search_4digits cs)"

definition extract_metadata_from_url :: "world \<Rightarrow> string \<Rightarrow> event list \<Rightarrow> dict \<times> event list" where
  "extract_metadata_from_url w url tr =
     (case http_get w tr url of
        Inl e \<Rightarrow>
          ([(''title'', ''Unknown Title''), (''author'', ''Unknown Author''),
            (''language'', ''Unknown''), (''year'', ''Unknown'')], tr @ [HttpGet url])
      | Inr p \<Rightarrow>
          (let metadata = [(''title'', []), (''author'', []),
                           (''language'', ''English''), (''year'', [])];
               metadata = (case h1_name p of
                             None \<Rightarrow> metadata
                           | Some t \<Rightarrow> AList.update ''title'' t metadata);
               metadata = (case a_creator p of
                             None \<Rightarrow> metadata
                           | Some a \<Rightarrow> AList.update ''author'' a metadata);
               metadata = (case language_td p of
                             None \<Rightarrow> metadata
                           | Some l \<Rightarrow> AList.update ''language'' l metadata);
               metadata = (case release_date_td p of
                             None \<Rightarrow> metadata
                           | Some year_text \<Rightarrow>
                               (case search_4digits year_text of
                                  None \<Rightarrow> metadata
                                | Some y \<Rightarrow> AList.update ''year'' y metadata))
           in (metadata, tr @ [HttpGet url])))"

text \<open>
  \<open>_get_content_url\<close>: the \<open>href\<close> of the first link whose text contains
  "Plain Text UTF-8", else of the first link whose \<open>href\<close> contains ".txt". A matching
  link without \<open>href\<close> raises \<open>KeyError\<close> at \<open>a_tag["href"]\<close>, which the handler turns
  into \<open>None\<close>.
\<close>

definition get_content_url :: "world \<Rightarrow> string \<Rightarrow> event list \<Rightarrow> string option \<times> event list" where
  "get_content_url w url tr =
     (case http_get w tr url of
        Inl e \<Rightarrow> (None, tr @ [HttpGet url])
      | Inr p \<Rightarrow>
          (case find (\<lambda>(t, h). str_in ''Plain Text UTF-8'' t) (a_tags p) of
             Some (t, h) \<Rightarrow> (h, tr @ [HttpGet url])
           | None \<Rightarrow>
               (case find (\<lambda>(t, h). str_in ''.txt'' (case h of None \<Rightarrow> [] | Some x \<Rightarrow> x))
                       (a_tags p) of
                  Some (t, h) \<Rightarrow> (h, tr @ [HttpGet url])
                | None \<Rightarrow> (None, tr @ [HttpGet url]))))"

definition max_content_length :: nat where
  "max_content_length = 16000"

text \<open>
  The sample of lines 207 to 215. \<open>int(max_content_length/3)\<close> is 5333, and
  \<open>int(len(content)/2 - max_content_length/6)\<close> truncates the positive number
  \<open>(3 * len(content) - 16000) / 6\<close>, whose fractional part is a third or five sixths.
\<close>

definition middle_start :: "string \<Rightarrow> int" where
  "middle_start content = (3 * int (length content) - int max_content_length) div 6"

definition beginning :: "string \<Rightarrow> string" where
  "beginning content = py_slice None (Some (int (max_content_length div 3))) content"

definition middle :: "string \<Rightarrow> string" where
  "middle content =
     py_slice (Some (middle_start content))
       (Some (middle_start content + int (max_content_length div 3))) content"

definition ending :: "string \<Rightarrow> string" where
  "ending content = py_slice (Some (- int (max_content_length div 3))) None content"

definition content_sample :: "string \<Rightarrow> string" where
  "content_sample content =
     (if length content > max_content_length then
        beginning content @ [nl, nl] @ ''[...middle section omitted...]'' @ [nl, nl]
        @ middle content @ [nl, nl] @ ''[...later section omitted...]'' @ [nl, nl]
        @ ending content
      else content)"

definition ind12 :: string where
  "ind12 = replicate 12 CHR '' ''"

definition summary_prompt :: "string \<Rightarrow> string \<Rightarrow> string \<Rightarrow> string" where
  "summary_prompt title author sample =
     [nl] @ ind12 @ ''Please provide a comprehensive summary of the book '' @ [dq] @ title @ [dq]
       @ '' by '' @ author @ ''.'' @ [nl]
     @ ind12 @ [nl]
     @ ind12 @ ''Include the following in your summary:'' @ [nl]
     @ ind12 @ ''1. Main plot points and narrative arc'' @ [nl]
     @ ind12 @ ''2. Key characters and their development'' @ [nl]
     @ ind12 @ ''3. Major themes and motifs'' @ [nl]
     @ ind12 @ ''4. Writing style and tone'' @ [nl]
     @ ind12 @ ''5. Historical or cultural context (if relevant)'' @ [nl]
     @ ind12 @ [nl]
     @ ind12 @ ''Make the summary detailed enough to give a good understanding of the book, but concise enough to be readable in a few minutes.'' @ [nl]
     @ ind12 @ [nl]
     @ ind12 @ ''Here is a sample of the book content to summarize:'' @ [nl]
     @ ind12 @ sample @ [nl]
     @ ind12 @ [nl]
     @ ind12 @ ''Provide a well-structured, engaging summary that captures the essence of the book.'' @ [nl]
     @ ind12"

definition genre_prompt :: "string \<Rightarrow> string \<Rightarrow> string \<Rightarrow> string" where
  "genre_prompt title author sample =
     [nl] @ ind12 @ ''Based on the following excerpt from '' @ [dq] @ title @ [dq]
       @ '' by '' @ author @ '', classify the genre of this book.'' @ [nl]
     @ ind12 @ ''Consider elements such as setting, themes, style, and plot elements.'' @ [nl]
     @ ind12 @ ''Provide a single primary genre and up to three subgenres if applicable.'' @ [nl]
     @ ind12 @ [nl]
     @ ind12 @ ''Excerpt:'' @ [nl]
     @ ind12 @ py_slice None (Some 8000) sample @ [nl]
     @ ind12 @ [nl]
     @ ind12 @ ''Format your response as: Primary Genre: [genre], Subgenres: [subgenre1, subgenre2, subgenre3]'' @ [nl]
     @ ind12"

text \<open>The dict returned by the handler of lines 258 to 263.\<close>

definition analysis_failed :: "exn \<Rightarrow> string \<Rightarrow> dict" where
  "analysis_failed e sample =
     [(''summary'', ''Error generating summary: '' @ message e),
      (''genre'', ''Unknown''),
      (''content'', py_slice None (Some 4000) sample)]"

text \<open>
  \<open>_analyze_content_with_gemini\<close>, with \<open>self.llm\<close> the model object built when the
  analyzer was constructed. A failed call is recorded in the trace like a successful one.
\<close>

definition analyze_content_with_gemini ::
  "world \<Rightarrow> string \<Rightarrow> dict \<Rightarrow> event list \<Rightarrow> dict \<times> event list" where
  "analyze_content_with_gemini w content metadata tr =
     (let title = dict_get metadata ''title'' ''Unknown Title'';
          author = dict_get metadata ''author'' ''Unknown Author'';
          sample = content_sample content;
          sp = summary_prompt title author sample;
          tr1 = tr @ [LlmInvoke sp]
      in case llm_invoke w tr sp of
           Inl e \<Rightarrow> (analysis_failed e sample, tr1)
         | Inr summary \<Rightarrow>
             (let gp = genre_prompt title author sample;
                  tr2 = tr1 @ [LlmInvoke gp]
              in case llm_invoke w tr1 gp of
                   Inl e \<Rightarrow> (analysis_failed e sample, tr2)
                 | Inr genre \<Rightarrow>
                     ([(''summary'', summary), (''genre'', genre), (''content'', sample)], tr2)))"

definition not_gutenberg :: dict where
  "not_gutenberg =
     [(''error'', ''This URL does not appear to be from Project Gutenberg. Please provide a valid Project Gutenberg URL.'')]"

text \<open>
  \<open>URLAnalyzer.analyze_url\<close>. Each of the four steps catches its own exceptions and
  returns a value, so the outer handler of line 103 has nothing to catch here.
\<close>

definition URLAnalyzer_analyze_url :: "world \<Rightarrow> string \<Rightarrow> event list \<Rightarrow> dict \<times> event list" where
  "URLAnalyzer_analyze_url w url tr =
     (if \<not> str_in ''gutenberg.org'' url then (not_gutenberg, tr)
      else
        (let (metadata, tr1) = extract_metadata_from_url w url tr;
             (content_url, tr2) = get_content_url w url tr1;
             (content, tr3) =
               (if truthy content_url then extract_text_from_url w (the content_url) tr2
                else extract_text_from_url w url tr2);
             (analysis, tr4) = analyze_content_with_gemini w content metadata tr3
         in (AList.update ''url'' url (AList.merge metadata analysis), tr4)))"

section \<open>The URL agent (\<open>src/agents/url_agent.py\<close>)\<close>

definition URLAgent_get_llm :: "world \<Rightarrow> exn + (event list \<Rightarrow> string \<Rightarrow> exn + string)" where
  "URLAgent_get_llm w = get_gemini_llm w"

definition URLAgent_analyze_url :: "world \<Rightarrow> string \<Rightarrow> event list \<Rightarrow> dict \<times> event list" where
  "URLAgent_analyze_url w url tr = URLAnalyzer_analyze_url w url tr"

definition URLAgent_get_book_summary :: "world \<Rightarrow> string \<Rightarrow> event list \<Rightarrow> string \<times> event list" where
  "URLAgent_get_book_summary w url tr =
     (let (analysis, tr1) = URLAgent_analyze_url w url tr
      in (dict_get analysis ''summary'' ''Unable to generate summary'', tr1))"

definition URLAgent_classify_genre :: "world \<Rightarrow> string \<Rightarrow> event list \<Rightarrow> string \<times> event list" where
  "URLAgent_classify_genre w url tr =
     (let (analysis, tr1) = URLAgent_analyze_url w url tr
      in (dict_get analysis ''genre'' ''Unable to classify genre'', tr1))"

definition ind8 :: string where
  "ind8 = replicate 8 CHR '' ''"

text \<open>The strings built in \<open>chat_with_url\<close>: \<open>prompt\<close>, \<open>fallback_prompt\<close> and the two replies
  of the handlers.\<close>

definition chat_prompt :: "string \<Rightarrow> string \<Rightarrow> string \<Rightarrow> string \<Rightarrow> string" where
  "chat_prompt title author query content =
     [nl] @ ind8 @ ''You are an expert on the book '' @ [dq] @ title @ [dq] @ '' by '' @ author
       @ ''. A user has asked the following question about the book:'' @ [nl]
     @ ind8 @ [nl]
     @ ind8 @ [dq] @ query @ [dq] @ [nl]
     @ ind8 @ [nl]
     @ ind8 @ ''Please provide a detailed and accurate response based on the book'' @ [sq]
       @ ''s content. If the question cannot be answered based on the book content, explain why and provide general information that might be helpful.'' @ [nl]
     @ ind8 @ [nl]
     @ ind8 @ ''Here are relevant sections from the book to reference:'' @ [nl]
     @ ind8 @ content @ [nl]
     @ ind8 @ [nl]
     @ ind8 @ ''Provide a thoughtful, well-structured response that directly addresses the user'' @ [sq]
       @ ''s question with specific references to the book content where possible.'' @ [nl]
     @ ind8"

definition fallback_prompt :: "string \<Rightarrow> string \<Rightarrow> string \<Rightarrow> string \<Rightarrow> string" where
  "fallback_prompt title author query smaller_content =
     ''Based on this excerpt from '' @ [dq] @ title @ [dq] @ '' by '' @ author
     @ '', please answer: '' @ [dq] @ query @ [dq] @ ''. Excerpt: '' @ smaller_content"

definition length_apology :: "string \<Rightarrow> string" where
  "length_apology title =
     ''I'' @ [sq] @ ''m sorry, but I couldn'' @ [sq] @ ''t process your query about '' @ [sq] @ title
     @ [sq] @ '' due to content length limitations. Please try asking a more specific question.''"

definition error_processing :: "string \<Rightarrow> exn \<Rightarrow> string" where
  "error_processing title e =
     ''Error processing your query about '' @ [sq] @ title @ [sq] @ '': '' @ message e"

text \<open>
  \<open>URLAgent.chat_with_url\<close>. The model object is built inside the \<open>try\<close>; when that
  fails \<open>llm\<close> is unbound in the handler, so the retry raises at once and the bare
  \<open>except\<close> answers without a call to the model.
\<close>

definition URLAgent_chat_with_url ::
  "world \<Rightarrow> string \<Rightarrow> string \<Rightarrow> event list \<Rightarrow> string \<times> event list" where
  "URLAgent_chat_with_url w url query tr =
     (let (analysis, tr1) = URLAgent_analyze_url w url tr
      in if dict_has ''error'' analysis then (''Error: '' @ dict_get analysis ''error'' [], tr1)
         else
           (let title = dict_get analysis ''title'' ''Unknown Title'';
                author = dict_get analysis ''author'' ''Unknown'';
                content = dict_get analysis ''content'' []
            in if content = [] then (''No content available for URL: '' @ url, tr1)
               else
                 (let prompt = chat_prompt title author query content
                  in case URLAgent_get_llm w of
                       Inl e \<Rightarrow>
                         (if length content > 8000 then (length_apology title, tr1)
                          else (error_processing title e, tr1))
                     | Inr llm \<Rightarrow>
                         (let tr2 = tr1 @ [LlmInvoke prompt]
                          in case llm tr1 prompt of
                               Inr response \<Rightarrow> (response, tr2)
                             | Inl e \<Rightarrow>
                                 (if length content > 8000 then
                                    (let smaller_content = py_slice None (Some 8000) content @ ''...'';
                                         fallback = fallback_prompt title author query smaller_content;
                                         tr3 = tr2 @ [LlmInvoke fallback]
                                     in case llm tr2 fallback of
                                          Inr response \<Rightarrow> (response, tr3)
                                        | Inl e2 \<Rightarrow> (length_apology title, tr3))
                                  else (error_processing title e, tr2))))))"

section \<open>The agent system (\<open>src/agents/agent_system.py\<close>)\<close>

text \<open>The two attributes of \<open>AgentSystem\<close> that the methods read and write.\<close>

record session =
  current_url :: "string option"
  current_analysis :: "dict option"

text \<open>\<open>AgentSystem.__init__\<close>, lines 28 to 30.\<close>

definition init :: session where
  "init = \<lparr>current_url = None, current_analysis = None\<rparr>"

definition AgentSystem_analyze_url ::
  "world \<Rightarrow> string \<Rightarrow> session \<Rightarrow> event list \<Rightarrow> dict \<times> session \<times> event list" where
  "AgentSystem_analyze_url w url s tr =
     (let s1 = s\<lparr>current_url := Some url\<rparr>;
          (analysis, tr1) = URLAgent_analyze_url w url tr;
          s2 = s1\<lparr>current_analysis := Some analysis\<rparr>
      in (analysis, s2, tr1))"

definition AgentSystem_get_book_summary ::
  "world \<Rightarrow> string \<Rightarrow> session \<Rightarrow> event list \<Rightarrow> string \<times> session \<times> event list" where
  "AgentSystem_get_book_summary w url s tr =
     (if Some url = current_url s \<and> truthy (current_analysis s) then
        (dict_get (the (current_analysis s)) ''summary'' ''Unable to generate summary'', s, tr)
      else
        (let (summary, tr1) = URLAgent_get_book_summary w url tr in (summary, s, tr1)))"

definition AgentSystem_classify_genre ::
  "world \<Rightarrow> string \<Rightarrow> session \<Rightarrow> event list \<Rightarrow> string \<times> session \<times> event list" where
  "AgentSystem_classify_genre w url s tr =
     (if Some url = current_url s \<and> truthy (current_analysis s) then
        (dict_get (the (current_analysis s)) ''genre'' ''Unable to classify genre'', s, tr)
      else
        (let (genre, tr1) = URLAgent_classify_genre w url tr in (genre, s, tr1)))"

definition AgentSystem_chat_with_url ::
  "world \<Rightarrow> string \<Rightarrow> string \<Rightarrow> session \<Rightarrow> event list \<Rightarrow> string \<times> session \<times> event list" where
  "AgentSystem_chat_with_url w url query s tr =
     (let (response, tr1) = URLAgent_chat_with_url w url query tr in (response, s, tr1))"

definition book_references :: "string list" where
  "book_references = [''the book'', ''this book'', ''current book'']"

text \<open>
  \<open>_extract_url_reference\<close>. The parameter \<open>current_url\<close> of the method is written
  \<open>url_arg\<close>, to keep it apart from the attribute \<open>self.current_url\<close>.
\<close>

definition extract_url_reference :: "session \<Rightarrow> string \<Rightarrow> string option \<Rightarrow> string option" where
  "extract_url_reference s query url_arg =
     (let query_lower = lower query;
          uses_generic_reference = list_ex (\<lambda>ref. str_in ref query_lower) book_references
      in if uses_generic_reference \<and> truthy url_arg then url_arg
         else if \<not> truthy url_arg \<and> truthy (current_url s) then current_url s
         else url_arg)"

text \<open>The title that every branch of \<open>process_user_query\<close> reads from the session.\<close>

definition session_title :: "session \<Rightarrow> string" where
  "session_title s =
     (if truthy (current_analysis s) then dict_get (the (current_analysis s)) ''title'' ''Unknown Title''
      else ''Unknown Title'')"

definition process_user_query ::
  "world \<Rightarrow> string \<Rightarrow> string option \<Rightarrow> session \<Rightarrow> event list \<Rightarrow> dict \<times> session \<times> event list" where
  "process_user_query w query url_arg s tr =
     (let query_lower = lower query;
          url_to_use = extract_url_reference s query url_arg
      in if \<not> truthy url_to_use then
           ([(''type'', ''error''), (''content'', ''Please provide a Project Gutenberg URL first.'')], s, tr)
         else if str_in ''summarize'' query_lower \<or> str_in ''summary'' query_lower then
           (if str_in ''summarize the'' query_lower \<or> str_in ''summarize this'' query_lower
               \<or> query_lower = ''summarize'' then
              (let (summary, s1, tr1) = AgentSystem_get_book_summary w (the url_to_use) s tr;
                   title = session_title s1
               in ([(''type'', ''summary''), (''title'', title), (''content'', summary)], s1, tr1))
            else
              (let (summary, s1, tr1) = AgentSystem_get_book_summary w (the url_to_use) s tr;
                   title = session_title s1
               in ([(''type'', ''summary''), (''title'', title), (''content'', summary)], s1, tr1)))
         else if str_in ''genre'' query_lower \<or> str_in ''classify'' query_lower then
           (let (genre, s1, tr1) = AgentSystem_classify_genre w (the url_to_use) s tr;
                title = session_title s1
            in ([(''type'', ''genre''), (''title'', title), (''content'', genre)], s1, tr1))
         else
           (let (response, s1, tr1) = AgentSystem_chat_with_url w (the url_to_use) query s tr;
                title = session_title s1
            in ([(''type'', ''chat''), (''title'', title), (''query'', query), (''content'', response)],
                s1, tr1)))"

section \<open>Reachable sessions\<close>

text \<open>
  A session starts as \<open>__init__\<close> leaves it, and changes only through the public
  methods of \<open>AgentSystem\<close>, each started on the trace its predecessor left.
\<close>

inductive reachable :: "world \<Rightarrow> session \<Rightarrow> event list \<Rightarrow> bool" for w :: world where
  start: "reachable w init []"
| analyze:
    "reachable w s tr \<Longrightarrow> AgentSystem_analyze_url w url s tr = (a, s', tr')
     \<Longrightarrow> reachable w s' tr'"
| summary:
    "reachable w s tr \<Longrightarrow> AgentSystem_get_book_summary w url s tr = (r, s', tr')
     \<Longrightarrow> reachable w s' tr'"
| genre:
    "reachable w s tr \<Longrightarrow> AgentSystem_classify_genre w url s tr = (r, s', tr')
     \<Longrightarrow> reachable w s' tr'"
| chat:
    "reachable w s tr \<Longrightarrow> AgentSystem_chat_with_url w url query s tr = (r, s', tr')
     \<Longrightarrow> reachable w s' tr'"
| query:
    "reachable w s tr \<Longrightarrow> process_user_query w query url_arg s tr = (d, s', tr')
     \<Longrightarrow> reachable w s' tr'"

section \<open>The host of a URL\<close>

text \<open>
  The specification speaks of the host of a URL, which the program never computes. It is
  taken here as the text between \<open>://\<close> and the next \<open>/\<close>, \<open>?\<close>, \<open>#\<close> or \<open>:\<close>.
\<close>

fun after_scheme :: "string \<Rightarrow> string" where
  "after_scheme (a # b # c # rest) =
     (if [a, b, c] = ''://'' then rest else after_scheme (b # c # rest))"
| "after_scheme _ = []"

definition spec_host :: "string \<Rightarrow> string" where
  "spec_host url = takeWhile (\<lambda>c. c \<notin> set ''/?#:'') (after_scheme url)"

section \<open>Sample worlds\<close>

text \<open>A world without network and without model: every fetch and every SDK call raises.\<close>

definition offline :: world where
  "offline =
     \<lparr>http_get = (\<lambda>tr url. Inl (PyException ''connection refused'')),
      gemini_sdk = (\<lambda>tr prompt. Inl (PyException ''quota exceeded'')),
      gemini_api_key = ''key''\<rparr>"

definition alice_page :: page where
  "alice_page =
     \<lparr>h1_name = Some ''Alice in Wonderland'',
      a_creator = Some ''Lewis Carroll'',
      language_td = Some ''English'',
      release_date_td = Some ''Jun 27, 2008'',
      a_tags = [(''Read online'', Some ''https://www.gutenberg.org/ebooks/11.html.images''),
                (''Plain Text UTF-8'', Some ''https://www.gutenberg.org/ebooks/11.txt.utf-8'')],
      clean_text = ''Alice was beginning to get very tired of sitting by her sister''\<rparr>"

text \<open>The response of the SDK that carries a text.\<close>

definition answer :: response where
  "answer = \<lparr>text_attr = Val ''A girl follows a rabbit.'', parts_attr = NoAttr, str_of = []\<rparr>"

text \<open>A world where every page is the same short book and the SDK always answers.\<close>

definition online :: world where
  "online =
     \<lparr>http_get = (\<lambda>tr url. Inr alice_page),
      gemini_sdk = (\<lambda>tr prompt. Inr answer),
      gemini_api_key = ''key''\<rparr>"

definition long_text :: "nat \<Rightarrow> string" where
  "long_text n = replicate n CHR ''a''"

text \<open>
  A world with a book of \<open>n\<close> characters where the SDK answers the two calls of the
  analyzer, which come after three fetches, and raises from then on.
\<close>

definition flaky :: "nat \<Rightarrow> world" where
  "flaky n =
     \<lparr>http_get = (\<lambda>tr url. Inr (alice_page\<lparr>clean_text := long_text n\<rparr>)),
      gemini_sdk = (\<lambda>tr prompt. if length tr < 5 then Inr answer
                                   else Inl (PyException ''quota exceeded'')),
      gemini_api_key = ''key''\<rparr>"

text \<open>The same world after the key has been removed from the environment.\<close>

definition keyless :: "nat \<Rightarrow> world" where
  "keyless n = (flaky n)\<lparr>gemini_api_key := []\<rparr>"

text \<open>
  A world with a book of \<open>n\<close> characters where the SDK raises at the first call of the
  analyzer, which comes after three fetches, and answers from then on.
\<close>

definition hiccup :: "nat \<Rightarrow> world" where
  "hiccup n =
     \<lparr>http_get = (\<lambda>tr url. Inr (alice_page\<lparr>clean_text := long_text n\<rparr>)),
      gemini_sdk = (\<lambda>tr prompt. if length tr = 3 then Inl (PyException ''quota exceeded'')
                                   else Inr answer),
      gemini_api_key = ''key''\<rparr>"

text \<open>A world whose pages are there and whose SDK raises at every call.\<close>

definition failing_sdk :: "event list \<Rightarrow> string \<Rightarrow> exn + response" where
  "failing_sdk tr prompt = Inl (PyException ''503 unavailable'')"

definition wrapped :: world where
  "wrapped =
     \<lparr>http_get = (\<lambda>tr url. Inr alice_page),
      gemini_sdk = failing_sdk,
      gemini_api_key = ''key''\<rparr>"

section \<open>Evaluation rules\<close>

lemma str_in_simps:
  "str_in [] s"
  "\<not> str_in (x # xs) []"
  "str_in (x # xs) (y # ys) = (prefix (x # xs) (y # ys) \<or> str_in (x # xs) ys)"
  by (simp_all add: str_in_def sublist_Cons_right)

lemmas eval_string = str_in_simps lower_def lower_char_def truthy_def

lemma length_long_text: "length (long_text n) = n"
  by (simp add: long_text_def)

section \<open>URL resolution\<close>

text \<open>
  C1 (as amended). When the lowercased query contains one of the phrases "the book",
  "this book", "current book" and the session holds a non-empty current URL, the
  resolution step yields the URL argument supplied with the query if that is non-empty,
  and the session's current URL only if the argument is absent or empty.
\<close>

theorem url_resolution:
  assumes "list_ex (\<lambda>ref. str_in ref (lower query)) book_references"
    and "truthy (current_url s)"
  shows "extract_url_reference s query url_arg = (if truthy url_arg then url_arg else current_url s)"
  using assms by (simp add: extract_url_reference_def)

text \<open>The theorem at a session that holds book 11, without and with a URL argument.\<close>

theorem url_resolution_witness:
  "extract_url_reference
     \<lparr>current_url = Some ''https://www.gutenberg.org/ebooks/11'',
      current_analysis = Some [(''title'', ''Alice in Wonderland'')]\<rparr>
     ''What happens in this book?'' None = Some ''https://www.gutenberg.org/ebooks/11''
   \<and> extract_url_reference
     \<lparr>current_url = Some ''https://www.gutenberg.org/ebooks/11'',
      current_analysis = Some [(''title'', ''Alice in Wonderland'')]\<rparr>
     ''What happens in this book?'' (Some ''https://www.gutenberg.org/ebooks/84'')
     = Some ''https://www.gutenberg.org/ebooks/84''"
  using url_resolution [of "''What happens in this book?''"
      "\<lparr>current_url = Some ''https://www.gutenberg.org/ebooks/11'',
        current_analysis = Some [(''title'', ''Alice in Wonderland'')]\<rparr>" None]
    url_resolution [of "''What happens in this book?''"
      "\<lparr>current_url = Some ''https://www.gutenberg.org/ebooks/11'',
        current_analysis = Some [(''title'', ''Alice in Wonderland'')]\<rparr>"
      "Some ''https://www.gutenberg.org/ebooks/84''"]
  by (simp add: book_references_def eval_string)

text \<open>
  The query names "the book", the session holds book 11, and the argument is book 84:
  the step does not yield the session's URL.
\<close>

theorem url_resolution_counterexample:
  "str_in ''the book'' (lower ''Summarize the book'')
   \<and> extract_url_reference
        \<lparr>current_url = Some ''https://www.gutenberg.org/ebooks/11'',
         current_analysis = Some [(''title'', ''Alice in Wonderland'')]\<rparr>
        ''Summarize the book'' (Some ''https://www.gutenberg.org/ebooks/84'')
      \<noteq> Some ''https://www.gutenberg.org/ebooks/11''"
  by (simp add: extract_url_reference_def eval_string)

section \<open>Intent classification\<close>

text \<open>
  C9. Once a URL is resolved, the type of the answer is decided by substring tests on the
  lowercased query, the first match winning: "summarize" or "summary" gives summary;
  otherwise "genre" or "classify" gives genre; otherwise chat. So a query with both
  "summary" and "genre" is a summary query.
\<close>

theorem intent_first_match:
  assumes "truthy (extract_url_reference s query url_arg)"
  shows "dict_get (fst (process_user_query w query url_arg s tr)) ''type'' [] =
           (if str_in ''summarize'' (lower query) \<or> str_in ''summary'' (lower query) then ''summary''
            else if str_in ''genre'' (lower query) \<or> str_in ''classify'' (lower query) then ''genre''
            else ''chat'')
         \<and> (str_in ''summary'' (lower query) \<and> str_in ''genre'' (lower query) \<longrightarrow>
              dict_get (fst (process_user_query w query url_arg s tr)) ''type'' [] = ''summary'')"
  using assms
  by (simp add: process_user_query_def Let_def dict_get_def split: prod.splits)

text \<open>The query of the specification, in capitals, then a genre query and a chat query.\<close>

theorem intent_first_match_witness:
  "dict_get (fst (process_user_query online ''Can you SUMMARY the Genre?''
       (Some ''https://www.gutenberg.org/ebooks/11'') init [])) ''type'' [] = ''summary''
   \<and> dict_get (fst (process_user_query online ''Please classify it''
       (Some ''https://www.gutenberg.org/ebooks/11'') init [])) ''type'' [] = ''genre''
   \<and> dict_get (fst (process_user_query online ''Who is the White Rabbit?''
       (Some ''https://www.gutenberg.org/ebooks/11'') init [])) ''type'' [] = ''chat''"
  using intent_first_match [of init "''Can you SUMMARY the Genre?''"
      "Some ''https://www.gutenberg.org/ebooks/11''" online "[]"]
    intent_first_match [of init "''Please classify it''"
      "Some ''https://www.gutenberg.org/ebooks/11''" online "[]"]
    intent_first_match [of init "''Who is the White Rabbit?''"
      "Some ''https://www.gutenberg.org/ebooks/11''" online "[]"]
  by (simp add: extract_url_reference_def init_def eval_string)

section \<open>Content sampling\<close>

lemma beginning_take: "beginning content = take 5333 content"
  by (simp add: beginning_def py_slice_def slice_bound_def max_content_length_def Let_def min_def)

lemma ending_drop: "ending content = drop (length content - 5333) content"
proof -
  have "nat (max 0 (int (length content) - 5333)) = length content - 5333"
    by linarith
  then show ?thesis
    by (simp add: ending_def py_slice_def slice_bound_def max_content_length_def Let_def)
qed

lemma middle_start_nat:
  assumes "16000 < length content"
  shows "middle_start content = int (length content div 2 - 2667)"
  using assms by (simp add: middle_start_def max_content_length_def)

lemma middle_take_drop:
  assumes "16000 < length content"
  shows "middle content = take 5333 (drop (length content div 2 - 2667) content)"
proof -
  let ?m = "length content div 2 - 2667"
  have m: "middle_start content = int ?m"
    using assms by (rule middle_start_nat)
  have le: "?m + 5333 \<le> length content"
    using assms by linarith
  show ?thesis
    using le by (simp add: middle_def m py_slice_def slice_bound_def max_content_length_def Let_def
        nat_add_distrib)
qed

text \<open>
  C4 (as amended). For a text of more than 16000 characters the sample is three segments
  joined by the two omission markers. Each segment has 5333 characters, a third of the
  limit 16000 and not of the length of the text: the first 5333 characters, the 5333
  characters from index \<open>L div 2 - 2667\<close> on, which lie around the midpoint, and the last
  5333 characters.
\<close>

theorem sample_segments:
  assumes "16000 < length content"
  shows "content_sample content =
           beginning content @ [nl, nl] @ ''[...middle section omitted...]'' @ [nl, nl]
           @ middle content @ [nl, nl] @ ''[...later section omitted...]'' @ [nl, nl]
           @ ending content
         \<and> beginning content = take 5333 content
         \<and> middle content = take 5333 (drop (length content div 2 - 2667) content)
         \<and> ending content = drop (length content - 5333) content
         \<and> length (beginning content) = 5333
         \<and> length (middle content) = 5333
         \<and> length (ending content) = 5333"
proof -
  have "content_sample content =
           beginning content @ [nl, nl] @ ''[...middle section omitted...]'' @ [nl, nl]
           @ middle content @ [nl, nl] @ ''[...later section omitted...]'' @ [nl, nl]
           @ ending content"
    using assms by (simp add: content_sample_def max_content_length_def)
  moreover have "middle content = take 5333 (drop (length content div 2 - 2667) content)"
    using assms by (rule middle_take_drop)
  moreover have "length (take 5333 content) = 5333"
    using assms by simp
  moreover have "length (take 5333 (drop (length content div 2 - 2667) content)) = 5333"
    using assms by simp
  moreover have "length (drop (length content - 5333) content) = 5333"
    using assms by simp
  ultimately show ?thesis
    by (simp only: beginning_take ending_drop simp_thms)
qed

text \<open>The theorem at a text of 30000 characters.\<close>

theorem sample_segments_witness:
  "length (beginning (long_text 30000)) = 5333
   \<and> middle (long_text 30000) = take 5333 (drop 12333 (long_text 30000))
   \<and> ending (long_text 30000) = drop 24667 (long_text 30000)"
  using sample_segments [of "long_text 30000"]
  by (simp add: length_long_text)

text \<open>
  A text of 30000 characters: a third of its length is 10000, and each segment has 5333
  characters.
\<close>

theorem sample_segments_counterexample:
  "16000 < length (long_text 30000)
   \<and> length (long_text 30000) div 3 = 10000
   \<and> length (beginning (long_text 30000)) = 5333
   \<and> length (middle (long_text 30000)) = 5333
   \<and> length (ending (long_text 30000)) = 5333"
  by (simp add: beginning_take ending_drop middle_take_drop length_long_text)

section \<open>Traces only grow\<close>

lemma extract_metadata_trace: "snd (extract_metadata_from_url w url tr) = tr @ [HttpGet url]"
  by (simp add: extract_metadata_from_url_def Let_def split: sum.splits)

lemma get_content_url_trace: "snd (get_content_url w url tr) = tr @ [HttpGet url]"
  by (simp add: get_content_url_def split: sum.splits option.splits prod.splits)

lemma extract_text_trace: "snd (extract_text_from_url w url tr) = tr @ [HttpGet url]"
  by (simp add: extract_text_from_url_def split: sum.splits)

lemma analyze_content_trace: "prefix tr (snd (analyze_content_with_gemini w content metadata tr))"
  by (simp add: analyze_content_with_gemini_def Let_def split: sum.splits)

lemma analyzer_trace: "prefix tr (snd (URLAnalyzer_analyze_url w url tr))"
proof (cases "str_in ''gutenberg.org'' url")
  case False
  then show ?thesis by (simp add: URLAnalyzer_analyze_url_def)
next
  case True
  obtain metadata tr1 where m: "extract_metadata_from_url w url tr = (metadata, tr1)"
    by (cases "extract_metadata_from_url w url tr")
  obtain content_url tr2 where c: "get_content_url w url tr1 = (content_url, tr2)"
    by (cases "get_content_url w url tr1")
  let ?u = "if truthy content_url then the content_url else url"
  obtain content tr3 where t: "extract_text_from_url w ?u tr2 = (content, tr3)"
    by (cases "extract_text_from_url w ?u tr2")
  have 1: "tr1 = tr @ [HttpGet url]"
    using extract_metadata_trace [of w url tr] m by simp
  have 2: "tr2 = tr1 @ [HttpGet url]"
    using get_content_url_trace [of w url tr1] c by simp
  have 3: "tr3 = tr2 @ [HttpGet ?u]"
    using extract_text_trace [of w ?u tr2] t by simp
  have "prefix tr3 (snd (analyze_content_with_gemini w content metadata tr3))"
    by (rule analyze_content_trace)
  moreover have "prefix tr tr3"
    by (simp add: 1 2 3)
  ultimately have "prefix tr (snd (analyze_content_with_gemini w content metadata tr3))"
    by (rule prefix_order.trans [rotated])
  moreover have "snd (URLAnalyzer_analyze_url w url tr)
      = snd (analyze_content_with_gemini w content metadata tr3)"
    using True m c t by (simp add: URLAnalyzer_analyze_url_def split: prod.splits if_splits)
  ultimately show ?thesis by simp
qed


lemma chat_trace: "prefix tr (snd (URLAgent_chat_with_url w url query tr))"
proof -
  obtain analysis tr1 where a: "URLAnalyzer_analyze_url w url tr = (analysis, tr1)"
    by (cases "URLAnalyzer_analyze_url w url tr")
  have p: "prefix tr tr1"
    using analyzer_trace [of tr w url] a by simp
  have "prefix tr1 (snd (URLAgent_chat_with_url w url query tr))"
    using a
    by (simp add: URLAgent_chat_with_url_def URLAgent_analyze_url_def Let_def
        split: sum.splits)
  with p show ?thesis
    by (rule prefix_order.trans)
qed

section \<open>What each method does to the session\<close>

lemma analyze_url_session:
  assumes "AgentSystem_analyze_url w url s tr = (a, s', tr')"
  shows "a = fst (URLAnalyzer_analyze_url w url tr)"
    and "s' = s\<lparr>current_url := Some url, current_analysis := Some a\<rparr>"
    and "tr' = snd (URLAnalyzer_analyze_url w url tr)"
  using assms
  by (auto simp add: AgentSystem_analyze_url_def URLAgent_analyze_url_def Let_def split: prod.splits)

lemma get_book_summary_session:
  assumes "AgentSystem_get_book_summary w url s tr = (r, s', tr')"
  shows "s' = s" and "prefix tr tr'"
  using assms analyzer_trace [of tr w url]
  by (auto simp add: AgentSystem_get_book_summary_def URLAgent_get_book_summary_def
      URLAgent_analyze_url_def Let_def split: prod.splits if_splits)

lemma classify_genre_session:
  assumes "AgentSystem_classify_genre w url s tr = (r, s', tr')"
  shows "s' = s" and "prefix tr tr'"
  using assms analyzer_trace [of tr w url]
  by (auto simp add: AgentSystem_classify_genre_def URLAgent_classify_genre_def
      URLAgent_analyze_url_def Let_def split: prod.splits if_splits)

lemma chat_with_url_session:
  assumes "AgentSystem_chat_with_url w url query s tr = (r, s', tr')"
  shows "s' = s" and "prefix tr tr'"
  using assms chat_trace [of tr w url query]
  by (auto simp add: AgentSystem_chat_with_url_def Let_def split: prod.splits)

lemma process_user_query_session:
  assumes "process_user_query w query url_arg s tr = (d, s', tr')"
  shows "s' = s" and "prefix tr tr'"
proof -
  let ?u = "the (extract_url_reference s query url_arg)"
  obtain r1 s1 t1 where 1: "AgentSystem_get_book_summary w ?u s tr = (r1, s1, t1)"
    by (cases "AgentSystem_get_book_summary w ?u s tr")
  obtain r2 s2 t2 where 2: "AgentSystem_classify_genre w ?u s tr = (r2, s2, t2)"
    by (cases "AgentSystem_classify_genre w ?u s tr")
  obtain r3 s3 t3 where 3: "AgentSystem_chat_with_url w ?u query s tr = (r3, s3, t3)"
    by (cases "AgentSystem_chat_with_url w ?u query s tr")
  note facts = get_book_summary_session [OF 1] classify_genre_session [OF 2]
    chat_with_url_session [OF 3]
  show "s' = s"
    using assms 1 2 3 facts
    by (simp add: process_user_query_def Let_def split: if_splits)
  show "prefix tr tr'"
    using assms 1 2 3 facts
    by (auto simp add: process_user_query_def Let_def split: if_splits)
qed

section \<open>The shape of an analysis\<close>

lemma update_not_Nil: "AList.update k v al \<noteq> []"
  by (cases al) auto

lemma analyzer_not_Nil: "fst (URLAnalyzer_analyze_url w url tr) \<noteq> []"
  by (simp add: URLAnalyzer_analyze_url_def not_gutenberg_def update_not_Nil Let_def
      split: prod.splits)

lemma analyze_content_keys:
  "\<exists>s g c. fst (analyze_content_with_gemini w content metadata tr)
      = [(''summary'', s), (''genre'', g), (''content'', c)]"
  by (simp add: analyze_content_with_gemini_def analysis_failed_def Let_def split: sum.splits)

lemma merged_fields:
  assumes "analysis = [(''summary'', s), (''genre'', g), (''content'', c)]"
  shows "map_of (AList.update ''url'' url (AList.merge metadata analysis)) ''summary'' = Some s"
    and "map_of (AList.update ''url'' url (AList.merge metadata analysis)) ''genre'' = Some g"
    and "map_of (AList.update ''url'' url (AList.merge metadata analysis)) ''content'' = Some c"
  using assms by (simp_all add: update_conv' merge_conv')

lemma metadata_no_error: "map_of (fst (extract_metadata_from_url w url tr)) ''error'' = None"
  by (simp add: extract_metadata_from_url_def Let_def update_conv' split: sum.splits option.splits)

lemma analyzer_unfold:
  assumes "str_in ''gutenberg.org'' url"
    and "extract_metadata_from_url w url tr = (metadata, tr1)"
    and "get_content_url w url tr1 = (content_url, tr2)"
    and "extract_text_from_url w (if truthy content_url then the content_url else url) tr2
           = (content, tr3)"
  shows "URLAnalyzer_analyze_url w url tr =
           (AList.update ''url'' url
              (AList.merge metadata (fst (analyze_content_with_gemini w content metadata tr3))),
            snd (analyze_content_with_gemini w content metadata tr3))"
  using assms by (simp add: URLAnalyzer_analyze_url_def split: prod.splits if_splits)

lemma analyzer_success:
  assumes "\<not> dict_has ''error'' (fst (URLAnalyzer_analyze_url w url tr))"
  shows "str_in ''gutenberg.org'' url"
    and "\<exists>summary. map_of (fst (URLAnalyzer_analyze_url w url tr)) ''summary'' = Some summary"
    and "\<exists>genre. map_of (fst (URLAnalyzer_analyze_url w url tr)) ''genre'' = Some genre"
proof -
  show g: "str_in ''gutenberg.org'' url"
  proof (rule ccontr)
    assume "\<not> str_in ''gutenberg.org'' url"
    then have "fst (URLAnalyzer_analyze_url w url tr) = not_gutenberg"
      by (simp add: URLAnalyzer_analyze_url_def)
    with assms show False
      by (simp add: not_gutenberg_def dict_has_def)
  qed
  obtain metadata tr1 where m: "extract_metadata_from_url w url tr = (metadata, tr1)"
    by (cases "extract_metadata_from_url w url tr")
  obtain content_url tr2 where c: "get_content_url w url tr1 = (content_url, tr2)"
    by (cases "get_content_url w url tr1")
  let ?u = "if truthy content_url then the content_url else url"
  obtain content tr3 where t: "extract_text_from_url w ?u tr2 = (content, tr3)"
    by (cases "extract_text_from_url w ?u tr2")
  obtain s g c where k: "fst (analyze_content_with_gemini w content metadata tr3)
      = [(''summary'', s), (''genre'', g), (''content'', c)]"
    using analyze_content_keys by blast
  note u = analyzer_unfold [OF g m c t]
  show "\<exists>summary. map_of (fst (URLAnalyzer_analyze_url w url tr)) ''summary'' = Some summary"
    using merged_fields(1) [OF k] by (simp add: u)
  show "\<exists>genre. map_of (fst (URLAnalyzer_analyze_url w url tr)) ''genre'' = Some genre"
    using merged_fields(2) [OF k] by (simp add: u)
qed

lemma str_in_Nil: "str_in (x # xs) url \<Longrightarrow> url \<noteq> []"
  by (auto simp add: str_in_simps)


lemmas eval_analyzer = URLAnalyzer_analyze_url_def extract_metadata_from_url_def
  get_content_url_def extract_text_from_url_def analyze_content_with_gemini_def
  analysis_failed_def content_sample_def max_content_length_def is_digit_def
  AList.merge_def py_slice_def slice_bound_def dict_get_def Let_def
  llm_invoke_def GeminiLLM_invoke_def GeminiLLM_call_def call_try_def answer_def

lemma online_analysis:
  "fst (URLAnalyzer_analyze_url online ''https://www.gutenberg.org/ebooks/11'' tr) =
     [(''title'', ''Alice in Wonderland''), (''author'', ''Lewis Carroll''),
      (''language'', ''English''), (''year'', ''2008''),
      (''content'', ''Alice was beginning to get very tired of sitting by her sister''),
      (''genre'', ''A girl follows a rabbit.''),
      (''summary'', ''A girl follows a rabbit.''),
      (''url'', ''https://www.gutenberg.org/ebooks/11'')]"
  by (simp add: eval_analyzer online_def alice_page_def eval_string)

section \<open>The session cache\<close>

text \<open>
  C5. In every reachable session either both fields are unset, or \<open>current_analysis\<close> is
  the record that a run of the analyzer on \<open>current_url\<close>, started at an earlier point of
  the trace, has returned. \<open>analyze_url\<close> writes the two fields together, and every other
  method returns the session as it found it.
\<close>

theorem session_pairing:
  assumes "reachable w s tr"
  shows "((current_url s = None \<and> current_analysis s = None)
          \<or> (\<exists>url tr0. prefix tr0 tr \<and> current_url s = Some url
                \<and> current_analysis s = Some (fst (URLAnalyzer_analyze_url w url tr0))))
         \<and> current_url (fst (snd (AgentSystem_analyze_url w u s tr))) = Some u
         \<and> current_analysis (fst (snd (AgentSystem_analyze_url w u s tr)))
             = Some (fst (URLAnalyzer_analyze_url w u tr))
         \<and> fst (snd (AgentSystem_get_book_summary w u s tr)) = s
         \<and> fst (snd (AgentSystem_classify_genre w u s tr)) = s
         \<and> fst (snd (AgentSystem_chat_with_url w u q s tr)) = s
         \<and> fst (snd (process_user_query w q url_arg s tr)) = s"
proof -
  have inv: "(current_url s = None \<and> current_analysis s = None)
         \<or> (\<exists>url tr0. prefix tr0 tr \<and> current_url s = Some url
               \<and> current_analysis s = Some (fst (URLAnalyzer_analyze_url w url tr0)))"
    using assms
  proof (induction rule: reachable.induct)
    case start
    show ?case by (simp add: init_def)
  next
    case (analyze s tr url a s' tr')
    note eqs = analyze_url_session [OF analyze.hyps(2)]
    have "prefix tr tr'"
      using eqs(3) analyzer_trace [of tr w url] by simp
    then show ?case
      using eqs by auto
  next
    case (summary s tr url r s' tr')
    note eqs = get_book_summary_session [OF summary.hyps(2)]
    from summary.IH eqs show ?case
      by (auto intro: prefix_order.trans)
  next
    case (genre s tr url r s' tr')
    note eqs = classify_genre_session [OF genre.hyps(2)]
    from genre.IH eqs show ?case
      by (auto intro: prefix_order.trans)
  next
    case (chat s tr url query r s' tr')
    note eqs = chat_with_url_session [OF chat.hyps(2)]
    from chat.IH eqs show ?case
      by (auto intro: prefix_order.trans)
  next
    case (query s tr query url_arg d s' tr')
    note eqs = process_user_query_session [OF query.hyps(2)]
    from query.IH eqs show ?case
      by (auto intro: prefix_order.trans)
  qed
  let ?a = "AgentSystem_analyze_url w u s tr"
  have a: "?a = (fst ?a, fst (snd ?a), snd (snd ?a))"
    by simp
  have written: "current_url (fst (snd ?a)) = Some u"
    "current_analysis (fst (snd ?a)) = Some (fst (URLAnalyzer_analyze_url w u tr))"
    using analyze_url_session(1,2) [OF a] by simp_all
  let ?b = "AgentSystem_get_book_summary w u s tr"
  have "?b = (fst ?b, fst (snd ?b), snd (snd ?b))"
    by simp
  then have b: "fst (snd ?b) = s"
    by (rule get_book_summary_session(1))
  let ?c = "AgentSystem_classify_genre w u s tr"
  have "?c = (fst ?c, fst (snd ?c), snd (snd ?c))"
    by simp
  then have c: "fst (snd ?c) = s"
    by (rule classify_genre_session(1))
  let ?d = "AgentSystem_chat_with_url w u q s tr"
  have "?d = (fst ?d, fst (snd ?d), snd (snd ?d))"
    by simp
  then have d: "fst (snd ?d) = s"
    by (rule chat_with_url_session(1))
  let ?e = "process_user_query w q url_arg s tr"
  have "?e = (fst ?e, fst (snd ?e), snd (snd ?e))"
    by simp
  then have e: "fst (snd ?e) = s"
    by (rule process_user_query_session(1))
  from inv written b c d e show ?thesis
    by (simp only: simp_thms)
qed

text \<open>The session after the first analysis of book 11 in the world that answers.\<close>

theorem session_pairing_witness:
  "reachable online
     (fst (snd (AgentSystem_analyze_url online ''https://www.gutenberg.org/ebooks/11'' init [])))
     (snd (snd (AgentSystem_analyze_url online ''https://www.gutenberg.org/ebooks/11'' init [])))
   \<and> current_url
        (fst (snd (AgentSystem_analyze_url online ''https://www.gutenberg.org/ebooks/11'' init [])))
      = Some ''https://www.gutenberg.org/ebooks/11''
   \<and> (\<exists>tr0. current_analysis
        (fst (snd (AgentSystem_analyze_url online ''https://www.gutenberg.org/ebooks/11'' init [])))
      = Some (fst (URLAnalyzer_analyze_url online ''https://www.gutenberg.org/ebooks/11'' tr0)))"
proof -
  let ?r = "AgentSystem_analyze_url online ''https://www.gutenberg.org/ebooks/11'' init []"
  have eq: "?r = (fst ?r, fst (snd ?r), snd (snd ?r))"
    by simp
  have r: "reachable online (fst (snd ?r)) (snd (snd ?r))"
    using reachable.start eq by (rule reachable.analyze)
  have u: "current_url (fst (snd ?r)) = Some ''https://www.gutenberg.org/ebooks/11''"
    using analyze_url_session(2) [OF eq] by simp
  from session_pairing [OF r, of "[]" "[]" None] r u show ?thesis
    by auto
qed

text \<open>
  C3. After \<open>analyze_url\<close> has stored an analysis without error for a URL, a summary
  query with no URL argument, or with that same URL, is answered with the summary field of
  the stored record, and the trace is unchanged: no fetch and no model call is made.
\<close>

theorem cached_summary_hit:
  assumes "AgentSystem_analyze_url w url s0 tr0 = (analysis, s, tr)"
    and "\<not> dict_has ''error'' analysis"
    and "url_arg = None \<or> url_arg = Some [] \<or> url_arg = Some url"
    and "str_in ''summarize'' (lower query) \<or> str_in ''summary'' (lower query)"
  shows "\<exists>summary. map_of analysis ''summary'' = Some summary
           \<and> process_user_query w query url_arg s tr =
               ([(''type'', ''summary''),
                 (''title'', dict_get analysis ''title'' ''Unknown Title''),
                 (''content'', summary)], s, tr)"
proof -
  note eqs = analyze_url_session [OF assms(1)]
  have ok: "\<not> dict_has ''error'' (fst (URLAnalyzer_analyze_url w url tr0))"
    using assms(2) eqs(1) by simp
  have url: "url \<noteq> []"
    using analyzer_success(1) [OF ok] by (rule str_in_Nil)
  obtain summary where sm: "map_of analysis ''summary'' = Some summary"
    using analyzer_success(2) [OF ok] eqs(1) by auto
  have ne: "analysis \<noteq> []"
    using eqs(1) analyzer_not_Nil by simp
  have cur: "current_url s = Some url" "current_analysis s = Some analysis"
    using eqs(2) by simp_all
  have res: "extract_url_reference s query url_arg = Some url"
    using assms(3) url cur by (auto simp add: extract_url_reference_def truthy_def)
  have get: "AgentSystem_get_book_summary w url s tr = (summary, s, tr)"
    using cur ne sm by (simp add: AgentSystem_get_book_summary_def truthy_def dict_get_def)
  have title: "session_title s = dict_get analysis ''title'' ''Unknown Title''"
    using cur ne by (simp add: session_title_def truthy_def)
  have "process_user_query w query url_arg s tr =
               ([(''type'', ''summary''),
                 (''title'', dict_get analysis ''title'' ''Unknown Title''),
                 (''content'', summary)], s, tr)"
    using assms(4) res url get title
    by (simp add: process_user_query_def truthy_def)
  with sm show ?thesis by blast
qed

text \<open>"Summarize this book" right after the analysis of book 11.\<close>

theorem cached_summary_hit_witness:
  "process_user_query online ''Summarize this book'' None
     (fst (snd (AgentSystem_analyze_url online ''https://www.gutenberg.org/ebooks/11'' init [])))
     (snd (snd (AgentSystem_analyze_url online ''https://www.gutenberg.org/ebooks/11'' init [])))
   = ([(''type'', ''summary''), (''title'', ''Alice in Wonderland''),
       (''content'', ''A girl follows a rabbit.'')],
      fst (snd (AgentSystem_analyze_url online ''https://www.gutenberg.org/ebooks/11'' init [])),
      snd (snd (AgentSystem_analyze_url online ''https://www.gutenberg.org/ebooks/11'' init [])))"
proof -
  let ?r = "AgentSystem_analyze_url online ''https://www.gutenberg.org/ebooks/11'' init []"
  have eq: "?r = (fst ?r, fst (snd ?r), snd (snd ?r))"
    by simp
  have a: "fst ?r =
     [(''title'', ''Alice in Wonderland''), (''author'', ''Lewis Carroll''),
      (''language'', ''English''), (''year'', ''2008''),
      (''content'', ''Alice was beginning to get very tired of sitting by her sister''),
      (''genre'', ''A girl follows a rabbit.''),
      (''summary'', ''A girl follows a rabbit.''),
      (''url'', ''https://www.gutenberg.org/ebooks/11'')]"
    using analyze_url_session(1) [OF eq] by (simp only: online_analysis)
  have ok: "\<not> dict_has ''error'' (fst ?r)"
    by (simp add: a dict_has_def)
  have q: "str_in ''summarize'' (lower ''Summarize this book'')
      \<or> str_in ''summary'' (lower ''Summarize this book'')"
    by (simp add: eval_string)
  from cached_summary_hit [OF eq ok _ q, of None] show ?thesis
    by (simp add: a dict_get_def)
qed

text \<open>
  C2 (as amended). For a summary or genre query whose resolved URL is not the session's
  current URL, the router runs the analyzer on that URL and answers with the summary or
  genre field of the fresh record; the session is left as it was, so the fresh record is
  not stored and a later query on the same URL runs the analyzer again.
\<close>

theorem fresh_analysis_not_cached:
  assumes "extract_url_reference s query url_arg = Some url"
    and "url \<noteq> []"
    and "current_url s \<noteq> Some url"
    and "str_in ''summarize'' (lower query) \<or> str_in ''summary'' (lower query)
         \<or> str_in ''genre'' (lower query) \<or> str_in ''classify'' (lower query)"
  shows "process_user_query w query url_arg s tr =
           (if str_in ''summarize'' (lower query) \<or> str_in ''summary'' (lower query) then
              [(''type'', ''summary''), (''title'', session_title s),
               (''content'', dict_get (fst (URLAnalyzer_analyze_url w url tr)) ''summary''
                   ''Unable to generate summary'')]
            else
              [(''type'', ''genre''), (''title'', session_title s),
               (''content'', dict_get (fst (URLAnalyzer_analyze_url w url tr)) ''genre''
                   ''Unable to classify genre'')],
            s, snd (URLAnalyzer_analyze_url w url tr))"
proof -
  have 1: "AgentSystem_get_book_summary w url s tr =
      (dict_get (fst (URLAnalyzer_analyze_url w url tr)) ''summary'' ''Unable to generate summary'',
       s, snd (URLAnalyzer_analyze_url w url tr))"
    using assms(3)
    by (auto simp add: AgentSystem_get_book_summary_def URLAgent_get_book_summary_def
        URLAgent_analyze_url_def split: prod.splits)
  have 2: "AgentSystem_classify_genre w url s tr =
      (dict_get (fst (URLAnalyzer_analyze_url w url tr)) ''genre'' ''Unable to classify genre'',
       s, snd (URLAnalyzer_analyze_url w url tr))"
    using assms(3)
    by (auto simp add: AgentSystem_classify_genre_def URLAgent_classify_genre_def
        URLAgent_analyze_url_def split: prod.splits)
  show ?thesis
    using assms(1,2,4) by (auto simp add: process_user_query_def truthy_def 1 2 Let_def)
qed

text \<open>A summary query on book 11 in a new session.\<close>

theorem fresh_analysis_not_cached_witness:
  "process_user_query online ''Summarize it'' (Some ''https://www.gutenberg.org/ebooks/11'') init []
   = ([(''type'', ''summary''), (''title'', ''Unknown Title''),
       (''content'', ''A girl follows a rabbit.'')],
      init, snd (URLAnalyzer_analyze_url online ''https://www.gutenberg.org/ebooks/11'' []))"
  using fresh_analysis_not_cached [of init "''Summarize it''"
      "Some ''https://www.gutenberg.org/ebooks/11''" "''https://www.gutenberg.org/ebooks/11''"
      online "[]"]
  by (simp add: extract_url_reference_def init_def session_title_def eval_string online_analysis
      dict_get_def)

text \<open>
  The same query: it is a summary query, its resolved URL is book 11, the session holds
  no URL, and after the answer the session still holds neither URL nor analysis.
\<close>

theorem fresh_analysis_not_cached_counterexample:
  "str_in ''summarize'' (lower ''Summarize it'')
   \<and> extract_url_reference init ''Summarize it'' (Some ''https://www.gutenberg.org/ebooks/11'')
       = Some ''https://www.gutenberg.org/ebooks/11''
   \<and> current_url init \<noteq> Some ''https://www.gutenberg.org/ebooks/11''
   \<and> current_url (fst (snd (process_user_query online ''Summarize it''
         (Some ''https://www.gutenberg.org/ebooks/11'') init []))) = None
   \<and> current_analysis (fst (snd (process_user_query online ''Summarize it''
         (Some ''https://www.gutenberg.org/ebooks/11'') init []))) = None"
proof -
  let ?r = "process_user_query online ''Summarize it''
         (Some ''https://www.gutenberg.org/ebooks/11'') init []"
  have eq: "?r = (fst ?r, fst (snd ?r), snd (snd ?r))"
    by simp
  have "fst (snd ?r) = init"
    using eq by (rule process_user_query_session(1))
  then show ?thesis
    by (simp add: extract_url_reference_def init_def eval_string)
qed

section \<open>Rejected URLs\<close>

text \<open>
  C8 (as amended). For every URL that does not contain the text "gutenberg.org",
  \<open>analyze_url\<close> returns the error record with the fixed message, and the trace is
  unchanged: no fetch and no model call is made.
\<close>

theorem not_gutenberg_no_calls:
  assumes "\<not> str_in ''gutenberg.org'' url"
  shows "URLAnalyzer_analyze_url w url tr =
           ([(''error'', ''This URL does not appear to be from Project Gutenberg. Please provide a valid Project Gutenberg URL.'')], tr)"
  using assms by (simp add: URLAnalyzer_analyze_url_def not_gutenberg_def)

text \<open>A URL of another site, in the world that answers.\<close>

theorem not_gutenberg_no_calls_witness:
  "URLAnalyzer_analyze_url online ''https://example.com/ebooks/11'' [] =
           ([(''error'', ''This URL does not appear to be from Project Gutenberg. Please provide a valid Project Gutenberg URL.'')], [])"
  using not_gutenberg_no_calls [of "''https://example.com/ebooks/11''" online "[]"]
  by (simp add: eval_string)

text \<open>
  A URL whose host is \<open>example.com\<close> and whose path contains "gutenberg.org" is
  accepted: the record has no error entry, and three fetches and two model calls are made.
\<close>

theorem not_gutenberg_no_calls_counterexample:
  "spec_host ''https://example.com/gutenberg.org'' = ''example.com''
   \<and> spec_host ''https://example.com/gutenberg.org'' \<noteq> ''gutenberg.org''
   \<and> \<not> dict_has ''error'' (fst (URLAnalyzer_analyze_url offline ''https://example.com/gutenberg.org'' []))
   \<and> snd (URLAnalyzer_analyze_url offline ''https://example.com/gutenberg.org'' []) =
        [HttpGet ''https://example.com/gutenberg.org'',
         HttpGet ''https://example.com/gutenberg.org'',
         HttpGet ''https://example.com/gutenberg.org'',
         LlmInvoke (summary_prompt ''Unknown Title'' ''Unknown Author''
            ''Error extracting content from URL: connection refused''),
         LlmInvoke (genre_prompt ''Unknown Title'' ''Unknown Author''
            ''Error extracting content from URL: connection refused'')]"
  by (simp add: spec_host_def eval_analyzer offline_def eval_string dict_has_def)



section \<open>Failure of the model inside the analyzer\<close>

lemma analyze_content_fields:
  assumes "sp = summary_prompt (dict_get metadata ''title'' ''Unknown Title'')
                (dict_get metadata ''author'' ''Unknown Author'') (content_sample content)"
    and "gp = genre_prompt (dict_get metadata ''title'' ''Unknown Title'')
                (dict_get metadata ''author'' ''Unknown Author'') (content_sample content)"
  shows "fst (analyze_content_with_gemini w content metadata tr) =
     [(''summary'', case call_try (gemini_sdk w tr) sp of
                      Inl e \<Rightarrow> ''Error calling Gemini API: '' @ message e
                    | Inr t \<Rightarrow> t),
      (''genre'', case call_try (gemini_sdk w (tr @ [LlmInvoke sp])) gp of
                    Inl e \<Rightarrow> ''Error calling Gemini API: '' @ message e
                  | Inr t \<Rightarrow> t),
      (''content'', content_sample content)]"
  using assms
  by (simp add: analyze_content_with_gemini_def llm_invoke_def GeminiLLM_invoke_def
      GeminiLLM_call_def Let_def split: sum.splits)

text \<open>
  C6 (as amended). If the SDK call behind the summary prompt or behind the genre prompt
  raises, or the reading of its response does, \<open>analyze_url\<close> still returns a record
  without error entry, and the field that the failing call fills, the summary for the
  first and the genre for the second, is "Error calling Gemini API: " followed by the
  message.
\<close>

theorem api_failure_record:
  assumes "str_in ''gutenberg.org'' url"
    and "extract_metadata_from_url w url tr = (metadata, tr1)"
    and "get_content_url w url tr1 = (content_url, tr2)"
    and "extract_text_from_url w (if truthy content_url then the content_url else url) tr2
           = (content, tr3)"
    and "sp = summary_prompt (dict_get metadata ''title'' ''Unknown Title'')
                (dict_get metadata ''author'' ''Unknown Author'') (content_sample content)"
    and "gp = genre_prompt (dict_get metadata ''title'' ''Unknown Title'')
                (dict_get metadata ''author'' ''Unknown Author'') (content_sample content)"
  shows "\<not> dict_has ''error'' (fst (URLAnalyzer_analyze_url w url tr))
         \<and> (call_try (gemini_sdk w tr3) sp = Inl e \<longrightarrow>
              map_of (fst (URLAnalyzer_analyze_url w url tr)) ''summary''
                = Some (''Error calling Gemini API: '' @ message e))
         \<and> (call_try (gemini_sdk w (tr3 @ [LlmInvoke sp])) gp = Inl e \<longrightarrow>
              map_of (fst (URLAnalyzer_analyze_url w url tr)) ''genre''
                = Some (''Error calling Gemini API: '' @ message e))"
proof -
  note a = analyze_content_fields [OF assms(5,6), of w tr3]
  note u = analyzer_unfold [OF assms(1-4)]
  have "map_of metadata ''error'' = None"
    using metadata_no_error [of w url tr] assms(2) by simp
  then have "\<not> dict_has ''error'' (fst (URLAnalyzer_analyze_url w url tr))"
    by (simp add: u a dict_has_def update_conv' merge_conv')
  with merged_fields(1,2) [OF a, of url metadata] show ?thesis
    by (simp add: u)
qed

text \<open>Book 11 in the world where every fetch and every SDK call raises.\<close>

theorem api_failure_record_witness:
  "\<not> dict_has ''error'' (fst (URLAnalyzer_analyze_url offline ''https://www.gutenberg.org/ebooks/11'' []))
   \<and> map_of (fst (URLAnalyzer_analyze_url offline ''https://www.gutenberg.org/ebooks/11'' []))
       ''summary'' = Some ''Error calling Gemini API: quota exceeded''
   \<and> map_of (fst (URLAnalyzer_analyze_url offline ''https://www.gutenberg.org/ebooks/11'' []))
       ''genre'' = Some ''Error calling Gemini API: quota exceeded''"
proof -
  let ?u = "''https://www.gutenberg.org/ebooks/11''"
  have g: "str_in ''gutenberg.org'' ?u"
    by (simp add: eval_string)
  have m: "extract_metadata_from_url offline ?u [] =
      ([(''title'', ''Unknown Title''), (''author'', ''Unknown Author''),
        (''language'', ''Unknown''), (''year'', ''Unknown'')], [HttpGet ?u])"
    by (simp add: extract_metadata_from_url_def offline_def)
  have c: "get_content_url offline ?u [HttpGet ?u] = (None, [HttpGet ?u, HttpGet ?u])"
    by (simp add: get_content_url_def offline_def)
  have t: "extract_text_from_url offline (if truthy None then the None else ?u)
        [HttpGet ?u, HttpGet ?u]
      = (''Error extracting content from URL: connection refused'',
         [HttpGet ?u, HttpGet ?u, HttpGet ?u])"
    by (simp add: extract_text_from_url_def offline_def truthy_def)
  have f: "call_try (gemini_sdk offline tr) p = Inl (PyException ''quota exceeded'')" for tr p
    by (simp add: offline_def call_try_def)
  from api_failure_record [OF g m c t refl refl, of "PyException ''quota exceeded''"]
  show ?thesis
    by (simp add: f)
qed

lemma hiccup_analysis:
  assumes "n \<le> 16000"
  shows "fst (URLAnalyzer_analyze_url (hiccup n) ''https://www.gutenberg.org/ebooks/11'' []) =
     [(''title'', ''Alice in Wonderland''), (''author'', ''Lewis Carroll''),
      (''language'', ''English''), (''year'', ''2008''),
      (''content'', long_text n),
      (''genre'', ''A girl follows a rabbit.''),
      (''summary'', ''Error calling Gemini API: quota exceeded''),
      (''url'', ''https://www.gutenberg.org/ebooks/11'')]"
  using assms
  by (simp add: eval_analyzer hiccup_def alice_page_def eval_string length_long_text)

text \<open>
  A book of 5000 characters in the world where the summary call fails with
  "quota exceeded" and the genre call is answered: the summary carries the message, the
  genre does not, and the content has all 5000 characters.
\<close>

theorem api_failure_record_counterexample:
  "dict_get (fst (URLAnalyzer_analyze_url (hiccup 5000) ''https://www.gutenberg.org/ebooks/11'' []))
       ''summary'' [] = ''Error calling Gemini API: quota exceeded''
   \<and> dict_get (fst (URLAnalyzer_analyze_url (hiccup 5000) ''https://www.gutenberg.org/ebooks/11'' []))
       ''genre'' [] = ''A girl follows a rabbit.''
   \<and> \<not> str_in ''quota exceeded''
        (dict_get (fst (URLAnalyzer_analyze_url (hiccup 5000) ''https://www.gutenberg.org/ebooks/11'' []))
           ''genre'' [])
   \<and> length (dict_get (fst (URLAnalyzer_analyze_url (hiccup 5000)
           ''https://www.gutenberg.org/ebooks/11'' [])) ''content'' []) = 5000"
  by (simp add: hiccup_analysis dict_get_def eval_string length_long_text)

section \<open>Failure of the model in the chat path\<close>

text \<open>
  C7 (what the program does). Let the analysis have no error and a non-empty content.
  If the model object can be built, exactly one call is made, with the chat prompt,
  whatever the length of the content; when the SDK call or the reading of its response
  raises, the answer is "Error calling Gemini API: " followed by the message, and the
  retry with the first 8000 characters is not made. If the model object cannot be built,
  no call is made at all: the answer is the apology when the content has more than 8000
  characters, and "Error processing your query about '<title>': <message>" otherwise.
\<close>

theorem chat_never_retries:
  assumes "URLAgent_analyze_url w url tr = (analysis, tr1)"
    and "\<not> dict_has ''error'' analysis"
    and "title = dict_get analysis ''title'' ''Unknown Title''"
    and "author = dict_get analysis ''author'' ''Unknown''"
    and "content = dict_get analysis ''content'' []"
    and "content \<noteq> []"
    and "prompt = chat_prompt title author query content"
  shows "(gemini_api_key w \<noteq> [] \<longrightarrow>
            URLAgent_chat_with_url w url query tr =
              (case call_try (gemini_sdk w tr1) prompt of
                 Inl e \<Rightarrow> ''Error calling Gemini API: '' @ message e
               | Inr response \<Rightarrow> response,
               tr1 @ [LlmInvoke prompt]))
         \<and> (gemini_api_key w = [] \<longrightarrow>
              URLAgent_chat_with_url w url query tr =
                (if 8000 < length content then
                   ''I'' @ [sq] @ ''m sorry, but I couldn'' @ [sq] @ ''t process your query about ''
                   @ [sq] @ title @ [sq]
                   @ '' due to content length limitations. Please try asking a more specific question.''
                 else
                   ''Error processing your query about '' @ [sq] @ title @ [sq]
                   @ '': GEMINI_API_KEY environment variable not set'',
                 tr1))"
proof (intro conjI impI)
  assume "gemini_api_key w \<noteq> []"
  then show "URLAgent_chat_with_url w url query tr =
              (case call_try (gemini_sdk w tr1) prompt of
                 Inl e \<Rightarrow> ''Error calling Gemini API: '' @ message e
               | Inr response \<Rightarrow> response,
               tr1 @ [LlmInvoke prompt])"
    using assms
    by (simp add: URLAgent_chat_with_url_def URLAgent_get_llm_def get_gemini_llm_def
        llm_invoke_def GeminiLLM_invoke_def GeminiLLM_call_def Let_def split: sum.splits)
next
  assume "gemini_api_key w = []"
  then show "URLAgent_chat_with_url w url query tr =
                (if 8000 < length content then
                   ''I'' @ [sq] @ ''m sorry, but I couldn'' @ [sq] @ ''t process your query about ''
                   @ [sq] @ title @ [sq]
                   @ '' due to content length limitations. Please try asking a more specific question.''
                 else
                   ''Error processing your query about '' @ [sq] @ title @ [sq]
                   @ '': GEMINI_API_KEY environment variable not set'',
                 tr1)"
    using assms
    by (simp add: URLAgent_chat_with_url_def URLAgent_get_llm_def get_gemini_llm_def
        length_apology_def error_processing_def Let_def)
qed

lemma flaky_analysis:
  assumes "n \<le> 16000"
  shows "fst (URLAnalyzer_analyze_url (flaky n) ''https://www.gutenberg.org/ebooks/11'' []) =
     [(''title'', ''Alice in Wonderland''), (''author'', ''Lewis Carroll''),
      (''language'', ''English''), (''year'', ''2008''),
      (''content'', long_text n),
      (''genre'', ''A girl follows a rabbit.''),
      (''summary'', ''A girl follows a rabbit.''),
      (''url'', ''https://www.gutenberg.org/ebooks/11'')]"
    and "length (snd (URLAnalyzer_analyze_url (flaky n) ''https://www.gutenberg.org/ebooks/11'' [])) = 5"
  using assms
  by (simp_all add: eval_analyzer flaky_def alice_page_def eval_string length_long_text)

lemma analyzer_ignores_key:
  "URLAnalyzer_analyze_url (w\<lparr>gemini_api_key := k\<rparr>) url tr = URLAnalyzer_analyze_url w url tr"
proof -
  have "extract_metadata_from_url (w\<lparr>gemini_api_key := k\<rparr>) = extract_metadata_from_url w"
    by (intro ext) (simp add: extract_metadata_from_url_def)
  moreover have "get_content_url (w\<lparr>gemini_api_key := k\<rparr>) = get_content_url w"
    by (intro ext) (simp add: get_content_url_def)
  moreover have "extract_text_from_url (w\<lparr>gemini_api_key := k\<rparr>) = extract_text_from_url w"
    by (intro ext) (simp add: extract_text_from_url_def)
  moreover have "analyze_content_with_gemini (w\<lparr>gemini_api_key := k\<rparr>)
      = analyze_content_with_gemini w"
    by (intro ext) (simp add: analyze_content_with_gemini_def llm_invoke_def Let_def
        split: sum.splits)
  ultimately show ?thesis
    by (simp add: URLAnalyzer_analyze_url_def cong: if_cong)
qed

lemma keyless_analysis:
  "URLAnalyzer_analyze_url (keyless n) url tr = URLAnalyzer_analyze_url (flaky n) url tr"
  by (simp add: keyless_def analyzer_ignores_key)

text \<open>
  Books of 9000 and of 100 characters, first in the world where the SDK raises after the
  analysis, then in the same world without the key.
\<close>

theorem chat_never_retries_witness:
  "fst (URLAgent_chat_with_url (flaky 9000) ''https://www.gutenberg.org/ebooks/11''
          ''Who is Alice?'' []) = ''Error calling Gemini API: quota exceeded''
   \<and> length (snd (URLAgent_chat_with_url (flaky 9000) ''https://www.gutenberg.org/ebooks/11''
          ''Who is Alice?'' [])) = 6
   \<and> fst (URLAgent_chat_with_url (flaky 100) ''https://www.gutenberg.org/ebooks/11''
          ''Who is Alice?'' []) = ''Error calling Gemini API: quota exceeded''
   \<and> length (snd (URLAgent_chat_with_url (flaky 100) ''https://www.gutenberg.org/ebooks/11''
          ''Who is Alice?'' [])) = 6
   \<and> fst (URLAgent_chat_with_url (keyless 9000) ''https://www.gutenberg.org/ebooks/11''
          ''Who is Alice?'' [])
       = ''I'' @ [sq] @ ''m sorry, but I couldn'' @ [sq] @ ''t process your query about ''
         @ [sq] @ ''Alice in Wonderland'' @ [sq]
         @ '' due to content length limitations. Please try asking a more specific question.''
   \<and> length (snd (URLAgent_chat_with_url (keyless 9000) ''https://www.gutenberg.org/ebooks/11''
          ''Who is Alice?'' [])) = 5
   \<and> fst (URLAgent_chat_with_url (keyless 100) ''https://www.gutenberg.org/ebooks/11''
          ''Who is Alice?'' [])
       = ''Error processing your query about '' @ [sq] @ ''Alice in Wonderland'' @ [sq]
         @ '': GEMINI_API_KEY environment variable not set''"
proof -
  let ?u = "''https://www.gutenberg.org/ebooks/11''"
  let ?d = "\<lambda>n. [(''title'', ''Alice in Wonderland''), (''author'', ''Lewis Carroll''),
      (''language'', ''English''), (''year'', ''2008''),
      (''content'', long_text n),
      (''genre'', ''A girl follows a rabbit.''),
      (''summary'', ''A girl follows a rabbit.''),
      (''url'', ''https://www.gutenberg.org/ebooks/11'')]"
  have 1: "fst (URLAgent_chat_with_url (flaky n) ?u ''Who is Alice?'' [])
        = ''Error calling Gemini API: quota exceeded''
      \<and> length (snd (URLAgent_chat_with_url (flaky n) ?u ''Who is Alice?'' [])) = 6"
    if n: "0 < n" "n \<le> 16000" for n
  proof -
    let ?a = "URLAgent_analyze_url (flaky n) ?u []"
    have a: "?a = (fst ?a, snd ?a)"
      by simp
    have f: "fst ?a = ?d n"
      using flaky_analysis(1) [OF n(2)] by (simp add: URLAgent_analyze_url_def)
    have l: "length (snd ?a) = 5"
      using flaky_analysis(2) [OF n(2)] by (simp add: URLAgent_analyze_url_def)
    have ne: "dict_get (fst ?a) ''content'' [] \<noteq> []"
      using n(1) by (simp add: f dict_get_def long_text_def)
    have k: "gemini_api_key (flaky n) \<noteq> []"
      by (simp add: flaky_def)
    have i: "call_try (gemini_sdk (flaky n) (snd ?a)) p = Inl (PyException ''quota exceeded'')" for p
      using l by (simp add: flaky_def call_try_def)
    have ok: "\<not> dict_has ''error'' (fst ?a)"
      by (simp add: f dict_has_def)
    from chat_never_retries [OF a ok refl refl refl ne refl, of "''Who is Alice?''"]
    show ?thesis
      using l k by (simp add: i)
  qed
  have 2: "fst (URLAgent_chat_with_url (keyless n) ?u ''Who is Alice?'' [])
        = (if 8000 < n then
                   ''I'' @ [sq] @ ''m sorry, but I couldn'' @ [sq] @ ''t process your query about ''
                   @ [sq] @ ''Alice in Wonderland'' @ [sq]
                   @ '' due to content length limitations. Please try asking a more specific question.''
           else ''Error processing your query about '' @ [sq] @ ''Alice in Wonderland'' @ [sq]
                   @ '': GEMINI_API_KEY environment variable not set'')
      \<and> length (snd (URLAgent_chat_with_url (keyless n) ?u ''Who is Alice?'' [])) = 5"
    if n: "0 < n" "n \<le> 16000" for n
  proof -
    let ?a = "URLAgent_analyze_url (keyless n) ?u []"
    have a: "?a = (fst ?a, snd ?a)"
      by simp
    have f: "fst ?a = ?d n"
      using flaky_analysis(1) [OF n(2)] by (simp add: URLAgent_analyze_url_def keyless_analysis)
    have l: "length (snd ?a) = 5"
      using flaky_analysis(2) [OF n(2)] by (simp add: URLAgent_analyze_url_def keyless_analysis)
    have ne: "dict_get (fst ?a) ''content'' [] \<noteq> []"
      using n(1) by (simp add: f dict_get_def long_text_def)
    have k: "gemini_api_key (keyless n) = []"
      by (simp add: keyless_def)
    have ok: "\<not> dict_has ''error'' (fst ?a)"
      by (simp add: f dict_has_def)
    from chat_never_retries [OF a ok refl refl refl ne refl, of "''Who is Alice?''"]
    show ?thesis
      using l k by (simp add: f dict_get_def length_long_text)
  qed
  from 1 [of 9000] 1 [of 100] 2 [of 9000] 2 [of 100] show ?thesis
    by simp
qed

section \<open>The wrapper never raises\<close>

lemma call_returns: "\<exists>text. GeminiLLM_call generate_content prompt = Inr text"
  by (simp add: GeminiLLM_call_def split: sum.splits)

lemma call_on_failure:
  assumes "generate_content prompt = Inl e"
  shows "GeminiLLM_call generate_content prompt = Inr (''Error calling Gemini API: '' @ message e)"
  using assms by (simp add: GeminiLLM_call_def call_try_def)

lemma wrapped_analysis:
  assumes "llm_invoke w = GeminiLLM_invoke sdk"
  shows "\<exists>summary genre. fst (analyze_content_with_gemini w content metadata tr) =
            [(''summary'', summary), (''genre'', genre), (''content'', content_sample content)]"
proof -
  let ?t = "dict_get metadata ''title'' ''Unknown Title''"
  let ?a = "dict_get metadata ''author'' ''Unknown Author''"
  let ?sp = "summary_prompt ?t ?a (content_sample content)"
  let ?gp = "genre_prompt ?t ?a (content_sample content)"
  obtain summary where 1: "llm_invoke w tr ?sp = Inr summary"
    using call_returns [of "sdk tr" ?sp] by (auto simp add: assms GeminiLLM_invoke_def)
  obtain genre where 2: "llm_invoke w (tr @ [LlmInvoke ?sp]) ?gp = Inr genre"
    using call_returns [of "sdk (tr @ [LlmInvoke ?sp])" ?gp]
    by (auto simp add: assms GeminiLLM_invoke_def)
  have "fst (analyze_content_with_gemini w content metadata tr) =
            [(''summary'', summary), (''genre'', genre), (''content'', content_sample content)]"
    by (simp add: analyze_content_with_gemini_def Let_def 1 2)
  then show ?thesis by blast
qed

lemma wrapped_chat:
  assumes "llm_invoke w = GeminiLLM_invoke sdk"
    and "gemini_api_key w \<noteq> []"
    and "\<not> dict_has ''error'' (fst (URLAgent_analyze_url w url tr))"
    and "dict_get (fst (URLAgent_analyze_url w url tr)) ''content'' [] \<noteq> []"
  shows "\<exists>response.
           llm_invoke w (snd (URLAgent_analyze_url w url tr))
             (chat_prompt (dict_get (fst (URLAgent_analyze_url w url tr)) ''title'' ''Unknown Title'')
                (dict_get (fst (URLAgent_analyze_url w url tr)) ''author'' ''Unknown'') query
                (dict_get (fst (URLAgent_analyze_url w url tr)) ''content'' [])) = Inr response
           \<and> URLAgent_chat_with_url w url query tr =
               (response, snd (URLAgent_analyze_url w url tr) @
                 [LlmInvoke (chat_prompt
                    (dict_get (fst (URLAgent_analyze_url w url tr)) ''title'' ''Unknown Title'')
                    (dict_get (fst (URLAgent_analyze_url w url tr)) ''author'' ''Unknown'') query
                    (dict_get (fst (URLAgent_analyze_url w url tr)) ''content'' []))])"
proof -
  obtain a t where r: "URLAgent_analyze_url w url tr = (a, t)"
    by (cases "URLAgent_analyze_url w url tr")
  let ?p = "chat_prompt (dict_get a ''title'' ''Unknown Title'')
                (dict_get a ''author'' ''Unknown'') query (dict_get a ''content'' [])"
  obtain response where 1: "llm_invoke w t ?p = Inr response"
    using call_returns [of "sdk t" ?p] by (auto simp add: assms(1) GeminiLLM_invoke_def)
  have "URLAgent_chat_with_url w url query tr = (response, t @ [LlmInvoke ?p])"
    using assms(2,3,4) 1
    by (simp add: r URLAgent_chat_with_url_def URLAgent_get_llm_def get_gemini_llm_def Let_def)
  with 1 show ?thesis
    by (simp add: r)
qed

text \<open>
  C10. \<open>_call\<close> returns a string for every prompt, and when the SDK call raises, that
  string is "Error calling Gemini API: " followed by the message. So with a model
  object that is a \<open>GeminiLLM\<close>, as every model object of the program is, \<open>invoke\<close>
  always returns: the analyzer always returns the record of its \<open>try\<close> block, and the
  chat path, once the model object is built, returns the first response after a single
  call.
\<close>

theorem wrapper_never_raises:
  "(\<exists>text. GeminiLLM_call generate_content prompt = Inr text)
   \<and> (generate_content prompt = Inl e \<longrightarrow>
        GeminiLLM_call generate_content prompt = Inr (''Error calling Gemini API: '' @ message e))
   \<and> (llm_invoke w = GeminiLLM_invoke sdk \<longrightarrow>
        (\<exists>text. llm_invoke w tr prompt = Inr text)
        \<and> (\<exists>summary genre. fst (analyze_content_with_gemini w content metadata tr) =
              [(''summary'', summary), (''genre'', genre), (''content'', content_sample content)])
        \<and> (gemini_api_key w \<noteq> []
             \<and> \<not> dict_has ''error'' (fst (URLAgent_analyze_url w url tr))
             \<and> dict_get (fst (URLAgent_analyze_url w url tr)) ''content'' [] \<noteq> [] \<longrightarrow>
             (\<exists>response.
                llm_invoke w (snd (URLAgent_analyze_url w url tr))
                  (chat_prompt
                     (dict_get (fst (URLAgent_analyze_url w url tr)) ''title'' ''Unknown Title'')
                     (dict_get (fst (URLAgent_analyze_url w url tr)) ''author'' ''Unknown'') query
                     (dict_get (fst (URLAgent_analyze_url w url tr)) ''content'' [])) = Inr response
                \<and> URLAgent_chat_with_url w url query tr =
                    (response, snd (URLAgent_analyze_url w url tr) @
                      [LlmInvoke (chat_prompt
                         (dict_get (fst (URLAgent_analyze_url w url tr)) ''title'' ''Unknown Title'')
                         (dict_get (fst (URLAgent_analyze_url w url tr)) ''author'' ''Unknown'') query
                         (dict_get (fst (URLAgent_analyze_url w url tr)) ''content'' []))]))))"
proof (intro conjI impI)
  show "\<exists>text. GeminiLLM_call generate_content prompt = Inr text"
    by (rule call_returns)
next
  assume "generate_content prompt = Inl e"
  then show "GeminiLLM_call generate_content prompt = Inr (''Error calling Gemini API: '' @ message e)"
    by (rule call_on_failure)
next
  assume "llm_invoke w = GeminiLLM_invoke sdk"
  then show "\<exists>text. llm_invoke w tr prompt = Inr text"
    using call_returns [of "sdk tr" prompt] by (simp add: GeminiLLM_invoke_def)
next
  assume "llm_invoke w = GeminiLLM_invoke sdk"
  then show "\<exists>summary genre. fst (analyze_content_with_gemini w content metadata tr) =
              [(''summary'', summary), (''genre'', genre), (''content'', content_sample content)]"
    by (rule wrapped_analysis)
next
  assume w: "llm_invoke w = GeminiLLM_invoke sdk"
    and c: "gemini_api_key w \<noteq> []
             \<and> \<not> dict_has ''error'' (fst (URLAgent_analyze_url w url tr))
             \<and> dict_get (fst (URLAgent_analyze_url w url tr)) ''content'' [] \<noteq> []"
  from c have k: "gemini_api_key w \<noteq> []"
    and ok: "\<not> dict_has ''error'' (fst (URLAgent_analyze_url w url tr))"
    and ne: "dict_get (fst (URLAgent_analyze_url w url tr)) ''content'' [] \<noteq> []"
    by simp_all
  from wrapped_chat [OF w k ok ne]
  show "\<exists>response.
                llm_invoke w (snd (URLAgent_analyze_url w url tr))
                  (chat_prompt
                     (dict_get (fst (URLAgent_analyze_url w url tr)) ''title'' ''Unknown Title'')
                     (dict_get (fst (URLAgent_analyze_url w url tr)) ''author'' ''Unknown'') query
                     (dict_get (fst (URLAgent_analyze_url w url tr)) ''content'' [])) = Inr response
                \<and> URLAgent_chat_with_url w url query tr =
                    (response, snd (URLAgent_analyze_url w url tr) @
                      [LlmInvoke (chat_prompt
                         (dict_get (fst (URLAgent_analyze_url w url tr)) ''title'' ''Unknown Title'')
                         (dict_get (fst (URLAgent_analyze_url w url tr)) ''author'' ''Unknown'') query
                         (dict_get (fst (URLAgent_analyze_url w url tr)) ''content'' []))])" .
qed

lemma wrapped_world_analysis:
  "fst (URLAnalyzer_analyze_url wrapped ''https://www.gutenberg.org/ebooks/11'' tr) =
     [(''title'', ''Alice in Wonderland''), (''author'', ''Lewis Carroll''),
      (''language'', ''English''), (''year'', ''2008''),
      (''content'', ''Alice was beginning to get very tired of sitting by her sister''),
      (''genre'', ''Error calling Gemini API: 503 unavailable''),
      (''summary'', ''Error calling Gemini API: 503 unavailable''),
      (''url'', ''https://www.gutenberg.org/ebooks/11'')]"
  by (simp add: eval_analyzer wrapped_def alice_page_def eval_string failing_sdk_def)

text \<open>The world whose SDK always raises: the error text is the answer of the chat.\<close>

theorem wrapper_never_raises_witness:
  "GeminiLLM_call (failing_sdk []) ''Who is Alice?'' = Inr ''Error calling Gemini API: 503 unavailable''
   \<and> fst (URLAgent_chat_with_url wrapped ''https://www.gutenberg.org/ebooks/11'' ''Who is Alice?'' [])
       = ''Error calling Gemini API: 503 unavailable''"
proof -
  let ?u = "''https://www.gutenberg.org/ebooks/11''"
  have f: "failing_sdk [] ''Who is Alice?'' = Inl (PyException ''503 unavailable'')"
    by (simp add: failing_sdk_def)
  have w: "llm_invoke wrapped = GeminiLLM_invoke failing_sdk"
    by (simp add: wrapped_def llm_invoke_def)
  have k: "gemini_api_key wrapped \<noteq> []"
    by (simp add: wrapped_def)
  have a: "fst (URLAgent_analyze_url wrapped ?u []) =
     [(''title'', ''Alice in Wonderland''), (''author'', ''Lewis Carroll''),
      (''language'', ''English''), (''year'', ''2008''),
      (''content'', ''Alice was beginning to get very tired of sitting by her sister''),
      (''genre'', ''Error calling Gemini API: 503 unavailable''),
      (''summary'', ''Error calling Gemini API: 503 unavailable''),
      (''url'', ''https://www.gutenberg.org/ebooks/11'')]"
    by (simp only: URLAgent_analyze_url_def wrapped_world_analysis)
  have i: "GeminiLLM_invoke failing_sdk tr p = Inr ''Error calling Gemini API: 503 unavailable''"
    for tr p
    by (simp add: GeminiLLM_invoke_def GeminiLLM_call_def call_try_def failing_sdk_def)
  from wrapper_never_raises [of "failing_sdk []" "''Who is Alice?''" "PyException ''503 unavailable''"
      wrapped failing_sdk "[]" "[]" "[]" ?u "''Who is Alice?''"]
  show ?thesis
    using f w k by (auto simp add: a dict_has_def dict_get_def i)
qed

end
